theory Spec2Isabelle
  imports Complex_Main
begin

section \<open>Python values used by \<^verbatim>\<open>deepspeed/utils/timer.py\<close>\<close>

text \<open>
  The module measures durations with Python floats.  The embedding reads every float as a
  real number: sums, products and quotients are exact, and the two special values the code
  can produce (negative infinity as a sentinel, not-a-number as the mean of nothing) are
  separate constructors.  Exceptions are values of the type \<open>error\<close>; a function that can
  raise returns \<open>error + 'a\<close> with \<open>Inl\<close> for the exception.
\<close>

datatype error =
    AssertionError string
  | TypeError
  | AttributeError
  | KeyError
  | ZeroDivisionError
  | ImportError


text \<open>The result of \<^verbatim>\<open>avg_samples_per_sec\<close>: a number, or \<^verbatim>\<open>float("-inf")\<close>.\<close>

datatype pyfloat = Fin real | NegInf

text \<open>Python's true division \<^verbatim>\<open>x / y\<close> raises on a zero divisor.\<close>

definition py_truediv :: "real \<Rightarrow> real \<Rightarrow> error + real" where
  "py_truediv x y = (if y = 0 then Inl ZeroDivisionError else Inr (x / y))"






subsection \<open>String formatting\<close>





section \<open>\<^verbatim>\<open>trim_mean\<close>\<close>


section \<open>\<^verbatim>\<open>CudaEventTimer\<close>\<close>

text \<open>
  Device events are opaque values of a type \<open>'ev\<close>.  The device's
  \<^verbatim>\<open>start_event.elapsed_time(end_event)\<close> is a parameter \<open>elapsed_time\<close>, and every
  \<^verbatim>\<open>torch.cuda.Event(...)\<close> that a method creates and records is an argument of that
  method.  A timer's \<^verbatim>\<open>start_event\<close> can be \<^verbatim>\<open>None\<close>, so the start of a measurement
  is optional; asking \<^verbatim>\<open>None\<close> for the elapsed time raises.
\<close>

datatype 'ev CudaEventTimer = CudaEventTimer "'ev option" 'ev

fun get_elapsed_msec :: "('ev \<Rightarrow> 'ev \<Rightarrow> real) \<Rightarrow> 'ev CudaEventTimer \<Rightarrow> error + real" where
  "get_elapsed_msec elapsed_time (CudaEventTimer None e) = Inl AttributeError"
| "get_elapsed_msec elapsed_time (CudaEventTimer (Some s) e) = Inr (elapsed_time s e)"

section \<open>\<^verbatim>\<open>SynchronizedWallClockTimer.Timer\<close>\<close>

text \<open>
  The fields \<^verbatim>\<open>name_\<close> and \<^verbatim>\<open>started_\<close> are written \<open>name'\<close> and \<open>started'\<close>: a
  name cannot end in an underscore here.
\<close>

record 'ev Timer =
  name' :: string
  started' :: bool
  event_timers :: "'ev CudaEventTimer list"
  start_event :: "'ev option"
  elapsed_records :: "real list option"

definition Timer_init :: "string \<Rightarrow> 'ev Timer" where
  "Timer_init name =
     \<lparr>name' = name, started' = False, event_timers = [], start_event = None,
      elapsed_records = None\<rparr>"

definition Timer_start :: "'ev \<Rightarrow> 'ev Timer \<Rightarrow> error + 'ev Timer" where
  "Timer_start ev t =
     (if started' t then Inl (AssertionError (name' t @ '' timer has already been started''))
      else Inr (t\<lparr>start_event := Some ev, started' := True\<rparr>))"

text \<open>\<^verbatim>\<open>stop(reset, record)\<close> reads neither of its parameters.\<close>

definition Timer_stop :: "'ev \<Rightarrow> 'ev Timer \<Rightarrow> error + 'ev Timer" where
  "Timer_stop end_event t =
     (if \<not> started' t then Inl (AssertionError ''timer is not started'')
      else Inr (t\<lparr>event_timers := event_timers t @ [CudaEventTimer (start_event t) end_event],
                  start_event := None, started' := False\<rparr>))"

text \<open>The list comprehension of \<^verbatim>\<open>_get_elapsed_msec\<close>: the first failure ends it.\<close>

fun elapsed_list :: "('ev \<Rightarrow> 'ev \<Rightarrow> real) \<Rightarrow> 'ev CudaEventTimer list \<Rightarrow> error + real list" where
  "elapsed_list elapsed_time [] = Inr []"
| "elapsed_list elapsed_time (et # ets) =
     (case get_elapsed_msec elapsed_time et of
        Inl e \<Rightarrow> Inl e
      | Inr v \<Rightarrow> (case elapsed_list elapsed_time ets of
                    Inl e \<Rightarrow> Inl e
                  | Inr vs \<Rightarrow> Inr (v # vs)))"

definition Timer_get_elapsed_msec ::
    "('ev \<Rightarrow> 'ev \<Rightarrow> real) \<Rightarrow> 'ev Timer \<Rightarrow> error + real \<times> 'ev Timer" where
  "Timer_get_elapsed_msec elapsed_time t =
     (case elapsed_list elapsed_time (event_timers t) of
        Inl e \<Rightarrow> Inl e
      | Inr recs \<Rightarrow> Inr (sum_list recs, t\<lparr>elapsed_records := Some recs, event_timers := []\<rparr>))"

definition Timer_reset :: "'ev Timer \<Rightarrow> 'ev Timer" where
  "Timer_reset t =
     t\<lparr>started' := False, start_event := None, elapsed_records := None, event_timers := []\<rparr>"

text \<open>
  \<^verbatim>\<open>elapsed(reset)\<close>.  \<open>end_ev\<close> is the event the implicit \<^verbatim>\<open>stop()\<close> creates and
  \<open>start_ev\<close> the one the implicit \<^verbatim>\<open>start()\<close> creates; neither is used when the timer
  is not running.
\<close>

definition Timer_elapsed ::
    "('ev \<Rightarrow> 'ev \<Rightarrow> real) \<Rightarrow> 'ev \<Rightarrow> 'ev \<Rightarrow> bool \<Rightarrow> 'ev Timer \<Rightarrow> error + real \<times> 'ev Timer" where
  "Timer_elapsed elapsed_time end_ev start_ev reset t =
     (case (if started' t then Timer_stop end_ev t else Inr t) of
        Inl e \<Rightarrow> Inl e
      | Inr t1 \<Rightarrow>
          (case Timer_get_elapsed_msec elapsed_time t1 of
             Inl e \<Rightarrow> Inl e
           | Inr (elapsed, t2) \<Rightarrow>
               (case (let t3 = (if reset then Timer_reset t2 else t2)
                      in if started' t then Timer_start start_ev t3 else Inr t3) of
                  Inl e \<Rightarrow> Inl e
                | Inr t4 \<Rightarrow> Inr (elapsed, t4))))"


section \<open>\<^verbatim>\<open>SynchronizedWallClockTimer\<close>\<close>

record 'ev SynchronizedWallClockTimer =
  timers :: "string \<rightharpoonup> 'ev Timer"

definition SynchronizedWallClockTimer_init :: "'ev SynchronizedWallClockTimer" where
  "SynchronizedWallClockTimer_init = \<lparr>timers = Map.empty\<rparr>"

text \<open>\<^verbatim>\<open>__call__(name)\<close>: the timer of that name, created on first use.\<close>

definition SynchronizedWallClockTimer_call ::
    "string \<Rightarrow> 'ev SynchronizedWallClockTimer \<Rightarrow> 'ev Timer \<times> 'ev SynchronizedWallClockTimer" where
  "SynchronizedWallClockTimer_call name r =
     (case timers r name of
        None \<Rightarrow> (Timer_init name, r\<lparr>timers := (timers r)(name \<mapsto> Timer_init name)\<rparr>)
      | Some t \<Rightarrow> (t, r))"





section \<open>\<^verbatim>\<open>ThroughputTimer\<close>\<close>

text \<open>
  The wall clock is an argument: \<open>now\<close> is what \<^verbatim>\<open>time.time()\<close> returns in the call.
  \<^verbatim>\<open>torch.cuda.synchronize()\<close> changes nothing here.  What \<^verbatim>\<open>self.logging\<close> receives is
  a list of log events; the memory figures of a line come from the device and the host and
  are left out of the event.
\<close>

record ThroughputTimer =
  start_time :: real
  end_time :: real
  started :: bool
  batch_size :: int
  num_workers :: int
  start_step :: int
  epoch_count :: int
  local_step_count :: int
  total_step_count :: int
  total_elapsed_time :: real
  steps_per_output :: int
  monitor_memory :: bool
  initialized :: bool

datatype log_event =
    SpeedReport int int pyfloat
  | MemoryReport int int

text \<open>The constructor; \<open>psutils_installed\<close> is the module's \<^verbatim>\<open>PSUTILS_INSTALLED\<close>.\<close>

definition ThroughputTimer_init ::
    "bool \<Rightarrow> int option \<Rightarrow> int \<Rightarrow> int \<Rightarrow> int \<Rightarrow> bool \<Rightarrow> error + ThroughputTimer" where
  "ThroughputTimer_init psutils_installed bs nw ss spo mm =
     (if mm \<and> \<not> psutils_installed then Inl ImportError
      else Inr \<lparr>start_time = 0, end_time = 0, started = False,
                batch_size = (case bs of None \<Rightarrow> 1 | Some b \<Rightarrow> b),
                num_workers = nw, start_step = ss, epoch_count = 0, local_step_count = 0,
                total_step_count = 0, total_elapsed_time = 0, steps_per_output = spo,
                monitor_memory = mm, initialized = False\<rparr>)"

definition update_epoch_count :: "ThroughputTimer \<Rightarrow> ThroughputTimer" where
  "update_epoch_count s = s\<lparr>epoch_count := epoch_count s + 1, local_step_count := 0\<rparr>"

definition ThroughputTimer_start :: "real \<Rightarrow> ThroughputTimer \<Rightarrow> ThroughputTimer" where
  "ThroughputTimer_start now s =
     (let s1 = s\<lparr>initialized := True, started := True\<rparr>
      in if start_step s1 \<le> total_step_count s1 then s1\<lparr>start_time := now\<rparr> else s1)"

definition avg_samples_per_sec :: "ThroughputTimer \<Rightarrow> error + pyfloat" where
  "avg_samples_per_sec s =
     (if 0 < total_step_count s then
        (let samples_per_step = batch_size s * num_workers s;
             total_step_offset = total_step_count s - start_step s
         in case py_truediv (total_elapsed_time s) (of_int total_step_offset) of
              Inl e \<Rightarrow> Inl e
            | Inr avg_time_per_step \<Rightarrow>
                (case py_truediv (of_int samples_per_step) avg_time_per_step of
                   Inl e \<Rightarrow> Inl e
                 | Inr v \<Rightarrow> Inr (Fin v)))
      else Inr NegInf)"

text \<open>
  \<^verbatim>\<open>stop(report_speed)\<close>.  An exception leaves the fields as they were when it was
  raised, so the state is returned in every case, next to the exception or the log events.
  \<^verbatim>\<open>local_step_count % steps_per_output\<close> raises when \<^verbatim>\<open>steps_per_output\<close> is zero.
\<close>

definition ThroughputTimer_stop ::
    "real \<Rightarrow> bool \<Rightarrow> ThroughputTimer \<Rightarrow> ThroughputTimer \<times> (error + log_event list)" where
  "ThroughputTimer_stop now report_speed s =
     (if \<not> started s then (s, Inr [])
      else
        let s1 = s\<lparr>started := False, total_step_count := total_step_count s + 1,
                   local_step_count := local_step_count s + 1\<rparr>
        in if start_step s1 < total_step_count s1 then
             (let s2 = s1\<lparr>end_time := now,
                          total_elapsed_time := total_elapsed_time s1 + (now - start_time s1)\<rparr>
              in if steps_per_output s2 = 0 then (s2, Inl ZeroDivisionError)
                 else if local_step_count s2 mod steps_per_output s2 = 0 then
                   (case (if report_speed then
                            (case avg_samples_per_sec s2 of
                               Inl e \<Rightarrow> Inl e
                             | Inr v \<Rightarrow>
                                 Inr [SpeedReport (epoch_count s2) (local_step_count s2) v])
                          else Inr []) of
                      Inl e \<Rightarrow> (s2, Inl e)
                    | Inr out \<Rightarrow>
                        (s2, Inr (out @ (if monitor_memory s2
                                         then [MemoryReport (epoch_count s2) (local_step_count s2)]
                                         else []))))
                 else (s2, Inr []))
           else (s1, Inr []))"

text \<open>A caller's sequence of calls; one that catches an exception goes on with the state.\<close>

datatype call = Start real | Stop real bool | UpdateEpochCount

fun do_call :: "call \<Rightarrow> ThroughputTimer \<Rightarrow> ThroughputTimer" where
  "do_call (Start now) s = ThroughputTimer_start now s"
| "do_call (Stop now report_speed) s = fst (ThroughputTimer_stop now report_speed s)"
| "do_call UpdateEpochCount s = update_epoch_count s"

fun run :: "call list \<Rightarrow> ThroughputTimer \<Rightarrow> ThroughputTimer" where
  "run [] s = s"
| "run (c # cs) s = run cs (do_call c s)"

text \<open>Complete cycles on a named timer: \<^verbatim>\<open>start()\<close> then \<^verbatim>\<open>stop()\<close>, one pair of events each.\<close>

fun cycles :: "('ev \<times> 'ev) list \<Rightarrow> 'ev Timer \<Rightarrow> error + 'ev Timer" where
  "cycles [] t = Inr t"
| "cycles ((s, e) # ps) t =
     (case Timer_start s t of
        Inl err \<Rightarrow> Inl err
      | Inr t1 \<Rightarrow> (case Timer_stop e t1 of
                     Inl err \<Rightarrow> Inl err
                   | Inr t2 \<Rightarrow> cycles ps t2))"

section \<open>Notions used in the statements\<close>

text \<open>
  A timer is well formed when a running timer holds its start event and every buffered
  measurement has one.  The constructor establishes this and every method keeps it.
\<close>

fun has_start :: "'ev CudaEventTimer \<Rightarrow> bool" where
  "has_start (CudaEventTimer s e) = (s \<noteq> None)"

definition Timer_ok :: "'ev Timer \<Rightarrow> bool" where
  "Timer_ok t = ((started' t = (start_event t \<noteq> None)) \<and> list_all has_start (event_timers t))"


text \<open>
  The state of a throughput timer during warm-up: no step is counted negatively, and as
  long as the step count has not passed \<^verbatim>\<open>start_step\<close> no time has been accumulated.
\<close>

definition warm :: "ThroughputTimer \<Rightarrow> bool" where
  "warm s = (0 \<le> total_step_count s
             \<and> (total_step_count s \<le> start_step s \<longrightarrow> total_elapsed_time s = 0))"

section \<open>Example inputs\<close>

text \<open>A device whose events are millisecond timestamps.\<close>

definition clock_ms :: "nat \<Rightarrow> nat \<Rightarrow> real" where
  "clock_ms s e = real e - real s"

text \<open>A named timer that has completed one interval of 10 ms.\<close>

definition one_interval :: "nat Timer" where
  "one_interval =
     \<lparr>name' = ''a'', started' = False, event_timers = [CudaEventTimer (Some 0) 10],
      start_event = None, elapsed_records = None\<rparr>"



text \<open>A throughput timer as the constructor returns it, with a warm-up of two steps.\<close>

definition fresh_tracker :: ThroughputTimer where
  "fresh_tracker =
     \<lparr>start_time = 0, end_time = 0, started = False, batch_size = 32, num_workers = 4,
      start_step = 2, epoch_count = 0, local_step_count = 0, total_step_count = 0,
      total_elapsed_time = 0, steps_per_output = 50, monitor_memory = False,
      initialized = False\<rparr>"



section \<open>The trimmed mean\<close>














section \<open>The start/stop protocol of a named timer\<close>

text \<open>
  Claim C6.  \<^verbatim>\<open>start()\<close> fails exactly when the timer is running, and then with the
  assertion that the timer "has already been started"; \<^verbatim>\<open>stop()\<close> fails exactly when the
  timer is not running, and then with the assertion that the "timer is not started".
  Otherwise \<^verbatim>\<open>start()\<close> leaves the timer running with the new start event and the same
  buffer, and \<^verbatim>\<open>stop()\<close> appends exactly one measurement, of the held start event and the
  new end event, and leaves the timer stopped.
\<close>

theorem Timer_start_stop_protocol:
  "((\<exists>e. Timer_start ev t = Inl e) \<longleftrightarrow> started' t)
   \<and> (started' t \<longrightarrow>
        Timer_start ev t = Inl (AssertionError (name' t @ '' timer has already been started'')))
   \<and> (\<not> started' t \<longrightarrow>
        (\<exists>t1. Timer_start ev t = Inr t1 \<and> started' t1 \<and> start_event t1 = Some ev
              \<and> event_timers t1 = event_timers t))
   \<and> ((\<exists>e. Timer_stop ev t = Inl e) \<longleftrightarrow> \<not> started' t)
   \<and> (\<not> started' t \<longrightarrow> Timer_stop ev t = Inl (AssertionError ''timer is not started''))
   \<and> (started' t \<longrightarrow>
        (\<exists>t1. Timer_stop ev t = Inr t1 \<and> \<not> started' t1 \<and> start_event t1 = None
              \<and> event_timers t1 = event_timers t @ [CudaEventTimer (start_event t) ev]
              \<and> length (event_timers t1) = Suc (length (event_timers t))))"
  by (simp add: Timer_start_def Timer_stop_def)

text \<open>A stopped timer refuses \<^verbatim>\<open>stop\<close> and accepts \<^verbatim>\<open>start\<close>; once running it refuses \<^verbatim>\<open>start\<close> and accepts \<^verbatim>\<open>stop\<close>.\<close>

theorem Timer_start_stop_protocol_witness:
  "\<not> started' one_interval
   \<and> Timer_stop 5 one_interval = Inl (AssertionError ''timer is not started'')
   \<and> Timer_start 20 one_interval = Inr (one_interval\<lparr>start_event := Some 20, started' := True\<rparr>)
   \<and> started' (one_interval\<lparr>start_event := Some 20, started' := True\<rparr>)
   \<and> Timer_start 25 (one_interval\<lparr>start_event := Some 20, started' := True\<rparr>)
       = Inl (AssertionError ''a timer has already been started'')
   \<and> (\<exists>t1. Timer_stop 32 (one_interval\<lparr>start_event := Some 20, started' := True\<rparr>) = Inr t1
         \<and> event_timers t1 = [CudaEventTimer (Some 0) 10, CudaEventTimer (Some 20) 32])"
  using Timer_start_stop_protocol [of 5 one_interval]
    Timer_start_stop_protocol [of 20 one_interval]
    Timer_start_stop_protocol [of 25 "one_interval\<lparr>start_event := Some 20, started' := True\<rparr>"]
    Timer_start_stop_protocol [of 32 "one_interval\<lparr>start_event := Some 20, started' := True\<rparr>"]
  by (simp add: one_interval_def Timer_start_def Timer_stop_def)

section \<open>Aggregation of buffered measurements\<close>

lemma elapsed_list_append:
  "elapsed_list dev (xs @ ys) =
     (case elapsed_list dev xs of
        Inl e \<Rightarrow> Inl e
      | Inr vs \<Rightarrow> (case elapsed_list dev ys of Inl e \<Rightarrow> Inl e | Inr ws \<Rightarrow> Inr (vs @ ws)))"
  by (induction xs) (auto split: sum.splits)

lemma cycles_stopped:
  "\<not> started' t \<Longrightarrow>
   \<exists>t1. cycles ps t = Inr t1 \<and> \<not> started' t1
        \<and> event_timers t1 = event_timers t @ map (\<lambda>(s, e). CudaEventTimer (Some s) e) ps"
proof (induction ps arbitrary: t)
  case Nil
  then show ?case by simp
next
  case (Cons p ps)
  obtain s e where p: "p = (s, e)" by (cases p)
  let ?t2 = "t\<lparr>start_event := Some s, started' := True,
               event_timers := event_timers t @ [CudaEventTimer (Some s) e],
               start_event := None, started' := False\<rparr>"
  have step: "Timer_start s t = Inr (t\<lparr>start_event := Some s, started' := True\<rparr>)"
    using Cons.prems by (simp add: Timer_start_def)
  have step2: "Timer_stop e (t\<lparr>start_event := Some s, started' := True\<rparr>) = Inr ?t2"
    by (simp add: Timer_stop_def)
  have "\<not> started' ?t2" by simp
  from Cons.IH [OF this] obtain t1 where
    "cycles ps ?t2 = Inr t1" "\<not> started' t1"
    "event_timers t1 = event_timers ?t2 @ map (\<lambda>(s, e). CudaEventTimer (Some s) e) ps"
    by blast
  then show ?case using step step2 by (simp add: p)
qed

lemma elapsed_list_intervals:
  "elapsed_list dev (map (\<lambda>(s, e). CudaEventTimer (Some s) e) ps) = Inr (map (\<lambda>(s, e). dev s e) ps)"
  by (induction ps) auto

lemma Timer_elapsed_stopped:
  "\<not> started' t \<Longrightarrow>
   Timer_elapsed dev e1 e2 reset t =
     (case elapsed_list dev (event_timers t) of
        Inl e \<Rightarrow> Inl e
      | Inr recs \<Rightarrow>
          Inr (sum_list recs,
               if reset then Timer_reset (t\<lparr>elapsed_records := Some recs, event_timers := []\<rparr>)
               else t\<lparr>elapsed_records := Some recs, event_timers := []\<rparr>))"
  by (simp add: Timer_elapsed_def Timer_get_elapsed_msec_def split: sum.splits)

text \<open>
  Claim C1.  Take a timer that is not running and whose buffered measurements report the
  durations \<open>ds\<close>.  After any sequence \<open>ps\<close> of complete start/stop cycles the buffer
  reports \<open>ds\<close> followed by one duration per cycle, and \<^verbatim>\<open>elapsed(reset)\<close> returns the sum
  of all of them, for either value of \<^verbatim>\<open>reset\<close>.  On a new timer and three cycles that the
  device measures at 10, 12 and 100 ms this is 122 ms.
\<close>

theorem elapsed_sums_intervals:
  assumes "\<not> started' t" and "elapsed_list dev (event_timers t) = Inr ds"
  shows "\<exists>t1 t2. cycles ps t = Inr t1
           \<and> elapsed_list dev (event_timers t1) = Inr (ds @ map (\<lambda>(s, e). dev s e) ps)
           \<and> Timer_elapsed dev e1 e2 reset t1
               = Inr (sum_list ds + sum_list (map (\<lambda>(s, e). dev s e) ps), t2)"
proof -
  from cycles_stopped [OF assms(1)] obtain t1 where
    t1: "cycles ps t = Inr t1" "\<not> started' t1"
    "event_timers t1 = event_timers t @ map (\<lambda>(s, e). CudaEventTimer (Some s) e) ps"
    by blast
  have recs: "elapsed_list dev (event_timers t1) = Inr (ds @ map (\<lambda>(s, e). dev s e) ps)"
    by (simp add: t1(3) elapsed_list_append assms(2) elapsed_list_intervals)
  show ?thesis using t1(1) recs by (simp add: Timer_elapsed_stopped [OF t1(2)])
qed

text \<open>Three intervals of 10, 12 and 100 ms on a new timer: 122 ms.\<close>

theorem elapsed_sums_intervals_witness:
  "\<not> started' (Timer_init ''fwd'' :: nat Timer)
   \<and> elapsed_list clock_ms (event_timers (Timer_init ''fwd'')) = Inr []
   \<and> (\<exists>t1 t2. cycles [(0, 10), (20, 32), (40, 140)] (Timer_init ''fwd'') = Inr t1
         \<and> elapsed_list clock_ms (event_timers t1) = Inr [10, 12, 100]
         \<and> Timer_elapsed clock_ms 150 150 True t1 = Inr (122, t2))"
proof -
  have h1: "\<not> started' (Timer_init ''fwd'' :: nat Timer)" by (simp add: Timer_init_def)
  have h2: "elapsed_list clock_ms (event_timers (Timer_init ''fwd'')) = Inr []"
    by (simp add: Timer_init_def)
  show ?thesis
    using h1 h2 elapsed_sums_intervals [OF h1 h2, of "[(0, 10), (20, 32), (40, 140)]" 150 150 True]
    by (simp add: clock_ms_def)
qed

text \<open>
  Claim C5 says that two calls of \<^verbatim>\<open>elapsed(reset=False)\<close> in a row on a timer that is not
  running return the same value.  The first call empties the buffer of measurements, so on
  a timer that holds one interval of 10 ms (a new timer after one start/stop cycle) the
  first call returns 10 and the second returns 0.
\<close>

theorem elapsed_twice_counterexample:
  "cycles [(0, 10)] (Timer_init ''a'') = Inr one_interval
   \<and> \<not> started' one_interval
   \<and> Timer_elapsed clock_ms 20 20 False one_interval
       = Inr (10, one_interval\<lparr>elapsed_records := Some [10], event_timers := []\<rparr>)
   \<and> Timer_elapsed clock_ms 30 30 False
         (one_interval\<lparr>elapsed_records := Some [10], event_timers := []\<rparr>)
       = Inr (0, one_interval\<lparr>elapsed_records := Some [], event_timers := []\<rparr>)
   \<and> (10 :: real) \<noteq> 0"
  by (simp add: one_interval_def Timer_init_def Timer_start_def Timer_stop_def Timer_elapsed_def
        Timer_get_elapsed_msec_def clock_ms_def)

text \<open>
  Claim C5, as the code has it.  On a timer that is not running, \<^verbatim>\<open>elapsed(reset=False)\<close>
  returns the sum of the buffered durations, records them and empties the buffer; a second
  call with no start or stop in between returns 0 and records no duration, and so does
  every later one.  The two calls agree exactly when the first sum is 0.
\<close>

theorem elapsed_twice_drains:
  assumes "\<not> started' t" and "Timer_elapsed dev e1 s1 False t = Inr (v1, t1)"
  shows "(\<exists>ds. elapsed_list dev (event_timers t) = Inr ds \<and> v1 = sum_list ds
              \<and> t1 = t\<lparr>elapsed_records := Some ds, event_timers := []\<rparr>)
         \<and> Timer_elapsed dev e2 s2 False t1 = Inr (0, t1\<lparr>elapsed_records := Some []\<rparr>)
         \<and> Timer_elapsed dev e3 s3 False (t1\<lparr>elapsed_records := Some []\<rparr>)
             = Inr (0, t1\<lparr>elapsed_records := Some []\<rparr>)"
proof -
  from assms obtain ds where ds: "elapsed_list dev (event_timers t) = Inr ds"
    "v1 = sum_list ds" "t1 = t\<lparr>elapsed_records := Some ds, event_timers := []\<rparr>"
    by (auto simp: Timer_elapsed_stopped split: sum.splits)
  have n1: "\<not> started' t1" using assms(1) ds(3) by simp
  have n2: "\<not> started' (t1\<lparr>elapsed_records := Some []\<rparr>)" using n1 by simp
  have "Timer_elapsed dev e2 s2 False t1 = Inr (0, t1\<lparr>elapsed_records := Some []\<rparr>)"
    by (subst Timer_elapsed_stopped [OF n1]) (simp add: ds(3))
  moreover have "Timer_elapsed dev e3 s3 False (t1\<lparr>elapsed_records := Some []\<rparr>)
             = Inr (0, t1\<lparr>elapsed_records := Some []\<rparr>)"
    by (subst Timer_elapsed_stopped [OF n2]) (simp add: ds(3))
  ultimately show ?thesis using ds by blast
qed

text \<open>The timer with one interval of 10 ms: 10, then 0.\<close>

theorem elapsed_twice_drains_witness:
  "\<not> started' one_interval
   \<and> Timer_elapsed clock_ms 20 20 False one_interval
       = Inr (10, one_interval\<lparr>elapsed_records := Some [10], event_timers := []\<rparr>)
   \<and> Timer_elapsed clock_ms 30 30 False
         (one_interval\<lparr>elapsed_records := Some [10], event_timers := []\<rparr>)
       = Inr (0, one_interval\<lparr>elapsed_records := Some [10], event_timers := [],
                               elapsed_records := Some []\<rparr>)"
proof -
  have h1: "\<not> started' one_interval" by (simp add: one_interval_def)
  have h2: "Timer_elapsed clock_ms 20 20 False one_interval
       = Inr (10, one_interval\<lparr>elapsed_records := Some [10], event_timers := []\<rparr>)"
    by (simp add: one_interval_def Timer_elapsed_def Timer_get_elapsed_msec_def clock_ms_def)
  show ?thesis using h1 h2 elapsed_twice_drains [OF h1 h2, of 30 30 40 40] by simp
qed

section \<open>The throughput timer\<close>

lemma start_keeps:
  "total_elapsed_time (ThroughputTimer_start now s) = total_elapsed_time s"
  "total_step_count (ThroughputTimer_start now s) = total_step_count s"
  "start_step (ThroughputTimer_start now s) = start_step s"
  by (simp_all add: ThroughputTimer_start_def Let_def)

lemma epoch_keeps:
  "total_elapsed_time (update_epoch_count s) = total_elapsed_time s"
  "total_step_count (update_epoch_count s) = total_step_count s"
  "start_step (update_epoch_count s) = start_step s"
  by (simp_all add: update_epoch_count_def)

lemma stop_fields:
  "total_elapsed_time (fst (ThroughputTimer_stop now rs s)) =
     (if started s \<and> start_step s < total_step_count s + 1
      then total_elapsed_time s + (now - start_time s) else total_elapsed_time s)"
  "total_step_count (fst (ThroughputTimer_stop now rs s)) =
     (if started s then total_step_count s + 1 else total_step_count s)"
  "start_step (fst (ThroughputTimer_stop now rs s)) = start_step s"
  by (simp_all add: ThroughputTimer_stop_def Let_def split: sum.splits)

lemma stop_state:
  "fst (ThroughputTimer_stop now rs s) =
     (if \<not> started s then s
      else if start_step s < total_step_count s + 1
        then s\<lparr>started := False, total_step_count := total_step_count s + 1,
               local_step_count := local_step_count s + 1, end_time := now,
               total_elapsed_time := total_elapsed_time s + (now - start_time s)\<rparr>
        else s\<lparr>started := False, total_step_count := total_step_count s + 1,
               local_step_count := local_step_count s + 1\<rparr>)"
  by (simp add: ThroughputTimer_stop_def Let_def split: sum.splits)

lemma warm_call: "warm s \<Longrightarrow> warm (do_call c s)"
  by (cases c) (auto simp: warm_def start_keeps epoch_keeps stop_fields)

lemma warm_run: "warm s \<Longrightarrow> warm (run cs s)"
  by (induction cs arbitrary: s) (simp_all add: warm_call)

lemma warm_init: "ThroughputTimer_init ps bs nw ss spo mm = Inr s \<Longrightarrow> warm s"
  by (auto simp: ThroughputTimer_init_def warm_def split: if_splits)

text \<open>
  Claim C4.  \<^verbatim>\<open>start\<close> and \<^verbatim>\<open>update_epoch_count\<close> never change
  \<^verbatim>\<open>total_elapsed_time\<close>.  \<^verbatim>\<open>stop\<close> adds the duration \<open>now - start_time\<close> of the step
  exactly when the timer was started and the incremented \<^verbatim>\<open>total_step_count\<close> exceeds
  \<^verbatim>\<open>start_step\<close>, and leaves \<^verbatim>\<open>total_elapsed_time\<close> unchanged otherwise; for a
  \<^verbatim>\<open>start\<close> at time \<open>a\<close> followed by a \<^verbatim>\<open>stop\<close> at time \<open>b\<close> that duration is
  \<open>b - a\<close>.  Hence in every
  state reached from the constructor by any sequence of these calls, no time has been
  accumulated as long as \<^verbatim>\<open>total_step_count\<close> has not passed \<^verbatim>\<open>start_step\<close>.
\<close>

theorem warmup_excluded:
  "total_elapsed_time (ThroughputTimer_start now s) = total_elapsed_time s
   \<and> total_elapsed_time (update_epoch_count s) = total_elapsed_time s
   \<and> total_elapsed_time (fst (ThroughputTimer_stop now rs s)) =
       (if started s \<and> start_step s < total_step_count (fst (ThroughputTimer_stop now rs s))
        then total_elapsed_time s + (now - start_time s) else total_elapsed_time s)
   \<and> total_elapsed_time (fst (ThroughputTimer_stop b rs (ThroughputTimer_start a s))) =
       (if start_step s < total_step_count s + 1 then total_elapsed_time s + (b - a)
        else total_elapsed_time s)
   \<and> (ThroughputTimer_init ps bs nw ss spo mm = Inr s0 \<longrightarrow>
        total_step_count (run cs s0) \<le> start_step (run cs s0) \<longrightarrow>
        total_elapsed_time (run cs s0) = 0)"
proof -
  have c: "total_elapsed_time (fst (ThroughputTimer_stop b rs (ThroughputTimer_start a s))) =
       (if start_step s < total_step_count s + 1 then total_elapsed_time s + (b - a)
        else total_elapsed_time s)"
    by (simp add: stop_state ThroughputTimer_start_def Let_def)
  have "ThroughputTimer_init ps bs nw ss spo mm = Inr s0 \<Longrightarrow> warm (run cs s0)"
    by (rule warm_run) (rule warm_init)
  then show ?thesis
    using c by (simp add: start_keeps epoch_keeps stop_fields warm_def)
qed

text \<open>A warm-up of two steps: the first two steps add nothing, the third adds its three seconds.\<close>

theorem warmup_excluded_witness:
  "ThroughputTimer_init False (Some 32) 4 2 50 False = Inr fresh_tracker
   \<and> total_step_count (run [Start 0, Stop 5 True] fresh_tracker)
       \<le> start_step (run [Start 0, Stop 5 True] fresh_tracker)
   \<and> total_elapsed_time (run [Start 0, Stop 5 True] fresh_tracker) = 0
   \<and> total_elapsed_time (fst (ThroughputTimer_stop 13 True
        (fresh_tracker\<lparr>started := True, total_step_count := 1\<rparr>))) = 0
   \<and> total_elapsed_time (fst (ThroughputTimer_stop 13 True
        (fresh_tracker\<lparr>started := True, start_time := 10, total_step_count := 2\<rparr>))) = 3"
proof -
  have i: "ThroughputTimer_init False (Some 32) 4 2 50 False = Inr fresh_tracker"
    by (simp add: ThroughputTimer_init_def fresh_tracker_def)
  show ?thesis
    using i
      warmup_excluded [where ps = False and bs = "Some 32" and nw = 4 and ss = 2 and spo = 50
        and mm = False and ?s0.0 = fresh_tracker and cs = "[Start 0, Stop 5 True]"
        and now = 13 and rs = True
        and s = "fresh_tracker\<lparr>started := True, total_step_count := 1\<rparr>"]
      warmup_excluded [where ps = False and bs = "Some 32" and nw = 4 and ss = 2 and spo = 50
        and mm = False and ?s0.0 = fresh_tracker and cs = "[]"
        and now = 13 and rs = True
        and s = "fresh_tracker\<lparr>started := True, start_time := 10, total_step_count := 2\<rparr>"]
    by (simp add: fresh_tracker_def ThroughputTimer_start_def stop_state)
qed





lemma warm_error:
  assumes "warm s" "0 < total_step_count s" "total_step_count s \<le> start_step s"
  shows "avg_samples_per_sec s = Inl ZeroDivisionError"
  using assms by (simp add: warm_def avg_samples_per_sec_def py_truediv_def Let_def)

lemma neg_rate:
  fixes x t d :: real
  assumes "0 \<le> x" "0 < t" "d < 0"
  shows "x / (t / d) \<le> 0"
proof -
  have "t / d < 0" using assms by (simp add: divide_pos_neg)
  with assms(1) show ?thesis by (rule divide_nonneg_neg)
qed

text \<open>
  Claim C9 says that with \<open>0 < total_step_count < start_step\<close> the negative divisor yields
  a rate that is not positive.  After one start/stop cycle of a timer with a warm-up of two
  steps no time has been accumulated: the average time per step is zero and the second
  division raises, so no rate is returned.
\<close>

theorem avg_samples_per_sec_warmup_counterexample:
  "ThroughputTimer_init False (Some 32) 4 2 50 False = Inr fresh_tracker
   \<and> total_step_count (run [Start 0, Stop (1 / 10) True] fresh_tracker) = 1
   \<and> start_step (run [Start 0, Stop (1 / 10) True] fresh_tracker) = 2
   \<and> avg_samples_per_sec (run [Start 0, Stop (1 / 10) True] fresh_tracker) = Inl ZeroDivisionError"
  by (simp add: ThroughputTimer_init_def fresh_tracker_def ThroughputTimer_start_def stop_state
        avg_samples_per_sec_def py_truediv_def)

text \<open>
  Claim C9, as the code has it.  The sentinel covers \<^verbatim>\<open>total_step_count = 0\<close> only: with
  \<open>0 < total_step_count \<le> start_step\<close> the division branch is taken.  When
  \<^verbatim>\<open>total_step_count = start_step\<close> the divisor is zero and the call raises.  When
  \<open>0 < total_step_count < start_step\<close> the divisor is negative; the call raises if
  \<^verbatim>\<open>total_elapsed_time\<close> is 0 and otherwise returns the quotient, which is not positive when
  \<^verbatim>\<open>batch_size * num_workers\<close> is not negative and \<^verbatim>\<open>total_elapsed_time\<close> is positive.
  The divisor is positive exactly when \<open>total_step_count > start_step\<close>.  In every state
  reached from the constructor, the call raises whenever
  \<open>0 < total_step_count \<le> start_step\<close>; so it returns without a division by zero only if
  \<^verbatim>\<open>total_step_count = 0\<close> or \<open>total_step_count > start_step\<close>.
\<close>

theorem avg_samples_per_sec_warmup:
  "(0 < total_step_count s \<and> total_step_count s \<le> start_step s \<longrightarrow>
      avg_samples_per_sec s \<noteq> Inr NegInf)
   \<and> (0 < total_step_count s \<and> total_step_count s = start_step s \<longrightarrow>
        real_of_int (total_step_count s - start_step s) = 0
        \<and> avg_samples_per_sec s = Inl ZeroDivisionError)
   \<and> (0 < total_step_count s \<and> total_step_count s < start_step s \<longrightarrow>
        real_of_int (total_step_count s - start_step s) < 0
        \<and> avg_samples_per_sec s =
            (if total_elapsed_time s = 0 then Inl ZeroDivisionError
             else Inr (Fin (real_of_int (batch_size s * num_workers s)
                            / (total_elapsed_time s
                               / real_of_int (total_step_count s - start_step s)))))
        \<and> (0 \<le> batch_size s * num_workers s \<and> 0 < total_elapsed_time s \<longrightarrow>
              real_of_int (batch_size s * num_workers s)
                / (total_elapsed_time s / real_of_int (total_step_count s - start_step s)) \<le> 0))
   \<and> (0 < total_step_count s \<longrightarrow>
        (0 < real_of_int (total_step_count s - start_step s)
           \<longleftrightarrow> start_step s < total_step_count s))
   \<and> (ThroughputTimer_init ps bs nw ss spo mm = Inr s0 \<longrightarrow>
        (0 < total_step_count (run cs s0) \<and> total_step_count (run cs s0) \<le> start_step (run cs s0)
           \<longrightarrow> avg_samples_per_sec (run cs s0) = Inl ZeroDivisionError)
        \<and> (avg_samples_per_sec (run cs s0) \<noteq> Inl ZeroDivisionError \<longrightarrow>
              total_step_count (run cs s0) = 0
              \<or> start_step (run cs s0) < total_step_count (run cs s0)))"
proof -
  have a: "0 < total_step_count s \<and> total_step_count s \<le> start_step s \<longrightarrow>
      avg_samples_per_sec s \<noteq> Inr NegInf"
    by (simp add: avg_samples_per_sec_def py_truediv_def Let_def split: sum.splits)
  have b: "0 < total_step_count s \<and> total_step_count s = start_step s \<longrightarrow>
        real_of_int (total_step_count s - start_step s) = 0
        \<and> avg_samples_per_sec s = Inl ZeroDivisionError"
    by (simp add: avg_samples_per_sec_def py_truediv_def Let_def)
  have c1: "0 < total_step_count s \<and> total_step_count s < start_step s \<longrightarrow>
        avg_samples_per_sec s =
            (if total_elapsed_time s = 0 then Inl ZeroDivisionError
             else Inr (Fin (real_of_int (batch_size s * num_workers s)
                            / (total_elapsed_time s
                               / real_of_int (total_step_count s - start_step s)))))"
    by (simp add: avg_samples_per_sec_def py_truediv_def Let_def)
  have c2: "total_step_count s < start_step s \<longrightarrow>
        0 \<le> batch_size s * num_workers s \<and> 0 < total_elapsed_time s \<longrightarrow>
              real_of_int (batch_size s * num_workers s)
                / (total_elapsed_time s / real_of_int (total_step_count s - start_step s)) \<le> 0"
  proof (intro impI)
    assume h: "total_step_count s < start_step s"
      "0 \<le> batch_size s * num_workers s \<and> 0 < total_elapsed_time s"
    have "0 \<le> real_of_int (batch_size s * num_workers s)"
      using h(2) by (simp only: of_int_0_le_iff)
    moreover have "real_of_int (total_step_count s - start_step s) < 0" using h(1) by simp
    ultimately show "real_of_int (batch_size s * num_workers s)
                / (total_elapsed_time s / real_of_int (total_step_count s - start_step s)) \<le> 0"
      using h(2) by (intro neg_rate) simp_all
  qed
  have d: "ThroughputTimer_init ps bs nw ss spo mm = Inr s0 \<longrightarrow>
        (0 < total_step_count (run cs s0) \<and> total_step_count (run cs s0) \<le> start_step (run cs s0)
           \<longrightarrow> avg_samples_per_sec (run cs s0) = Inl ZeroDivisionError)
        \<and> (avg_samples_per_sec (run cs s0) \<noteq> Inl ZeroDivisionError \<longrightarrow>
              total_step_count (run cs s0) = 0
              \<or> start_step (run cs s0) < total_step_count (run cs s0))"
  proof
    assume "ThroughputTimer_init ps bs nw ss spo mm = Inr s0"
    then have w: "warm (run cs s0)" by (intro warm_run warm_init)
    then have "0 \<le> total_step_count (run cs s0)" by (simp add: warm_def)
    then show "(0 < total_step_count (run cs s0) \<and> total_step_count (run cs s0) \<le> start_step (run cs s0)
           \<longrightarrow> avg_samples_per_sec (run cs s0) = Inl ZeroDivisionError)
        \<and> (avg_samples_per_sec (run cs s0) \<noteq> Inl ZeroDivisionError \<longrightarrow>
              total_step_count (run cs s0) = 0
              \<or> start_step (run cs s0) < total_step_count (run cs s0))"
      using warm_error [OF w] by force
  qed
  show ?thesis using a b c1 c2 d by simp
qed

text \<open>One cycle into a warm-up of two steps; a state at the end of warm-up; a state inside warm-up with half a second on the clock.\<close>

theorem avg_samples_per_sec_warmup_witness:
  "ThroughputTimer_init False (Some 32) 4 2 50 False = Inr fresh_tracker
   \<and> 0 < total_step_count (run [Start 0, Stop (1 / 10) True] fresh_tracker)
   \<and> total_step_count (run [Start 0, Stop (1 / 10) True] fresh_tracker)
       \<le> start_step (run [Start 0, Stop (1 / 10) True] fresh_tracker)
   \<and> avg_samples_per_sec (run [Start 0, Stop (1 / 10) True] fresh_tracker) = Inl ZeroDivisionError
   \<and> avg_samples_per_sec (fresh_tracker\<lparr>total_step_count := 2\<rparr>) = Inl ZeroDivisionError
   \<and> avg_samples_per_sec (fresh_tracker\<lparr>total_step_count := 1, total_elapsed_time := 1 / 2\<rparr>)
       = Inr (Fin (- 256))"
proof -
  have i: "ThroughputTimer_init False (Some 32) 4 2 50 False = Inr fresh_tracker"
    by (simp add: ThroughputTimer_init_def fresh_tracker_def)
  have f: "total_step_count (run [Start 0, Stop (1 / 10) True] fresh_tracker) = 1"
    "start_step (run [Start 0, Stop (1 / 10) True] fresh_tracker) = 2"
    by (simp_all add: fresh_tracker_def ThroughputTimer_start_def stop_state)
  have a: "avg_samples_per_sec (run [Start 0, Stop (1 / 10) True] fresh_tracker)
             = Inl ZeroDivisionError"
    using i f avg_samples_per_sec_warmup
      [where ps = False and bs = "Some 32" and nw = 4 and ss = 2 and spo = 50 and mm = False
         and ?s0.0 = fresh_tracker and cs = "[Start 0, Stop (1 / 10) True]"]
    by simp
  have b: "avg_samples_per_sec (fresh_tracker\<lparr>total_step_count := 2\<rparr>) = Inl ZeroDivisionError"
    using avg_samples_per_sec_warmup [where s = "fresh_tracker\<lparr>total_step_count := 2\<rparr>"]
    by (simp add: fresh_tracker_def)
  have c: "avg_samples_per_sec (fresh_tracker\<lparr>total_step_count := 1, total_elapsed_time := 1 / 2\<rparr>)
       = Inr (Fin (- 256))"
    using avg_samples_per_sec_warmup
      [where s = "fresh_tracker\<lparr>total_step_count := 1, total_elapsed_time := 1 / 2\<rparr>"]
    by (simp add: fresh_tracker_def)
  show ?thesis using i f a b c by simp
qed

section \<open>The registry\<close>


lemma Timer_ok_init: "Timer_ok (Timer_init name)"
  by (simp add: Timer_ok_def Timer_init_def)

lemma Timer_ok_start: "Timer_ok t \<Longrightarrow> Timer_start ev t = Inr t1 \<Longrightarrow> Timer_ok t1"
  by (auto simp: Timer_ok_def Timer_start_def split: if_splits)

lemma Timer_ok_stop: "Timer_ok t \<Longrightarrow> Timer_stop ev t = Inr t1 \<Longrightarrow> Timer_ok t1"
  by (auto simp: Timer_ok_def Timer_stop_def split: if_splits)

lemma Timer_ok_reset: "Timer_ok (Timer_reset t)"
  by (simp add: Timer_ok_def Timer_reset_def)
















end
